theory Spec2Isabelle
  imports Complex_Main "HOL-Library.Char_ord" "HOL-Library.List_Lexorder" "HOL-Library.AList"
begin

section \<open>Python values shared by the modules\<close>

text \<open>
  In the risk protocol and the volatility filter a Python float is a real: every
  comparison against a threshold and every sum is the mathematical one. The allocation
  rule rounds each operation to a double, as its section says.
  A \<open>datetime\<close> is an integer count of microseconds, a \<open>timedelta\<close> their difference.
  Strings are lists of 8-bit characters; \<open>str.lower\<close> is modelled on ASCII letters.
\<close>

datatype py_error =
    ValueError string
  | KeyError string
  | ZeroDivisionError
  | AttributeError
  | TypeError

definition lower_char :: "char \<Rightarrow> char" where
  "lower_char c =
     (let n = (of_char c :: nat) in if 65 \<le> n \<and> n \<le> 90 then char_of (n + 32) else c)"

definition lower :: "string \<Rightarrow> string" where
  "lower s = map lower_char s"

fun starts_with :: "string \<Rightarrow> string \<Rightarrow> bool" where
  "starts_with [] s = True"
| "starts_with (p # ps) [] = False"
| "starts_with (p # ps) (c # cs) = (p = c \<and> starts_with ps cs)"

text \<open>Python's \<open>pat in s\<close> on strings: \<open>pat\<close> occurs as a contiguous substring.\<close>

fun str_in :: "string \<Rightarrow> string \<Rightarrow> bool" where
  "str_in pat [] = (pat = [])"
| "str_in pat (c # cs) = (starts_with pat (c # cs) \<or> str_in pat cs)"

text \<open>\<open>timedelta.seconds\<close>: the seconds component of the normalised difference, between
  0 and 86399, days and microseconds left out.\<close>

definition td_seconds :: "int \<Rightarrow> int" where
  "td_seconds d = (d div 1000000) mod 86400"

section \<open>risk_execution_protocol.py\<close>

datatype tier = Low | Retail | Pro

record rep =
  account_equity :: real
  tier :: tier
  max_position_size_pct :: real
  max_trades_per_hour :: nat
  max_daily_drawdown_pct :: real
  max_trade_drawdown_pct :: real
  daily_loss_total :: real
  trade_history :: "real list"
  last_trade_time :: "int option"
  execution_frozen :: bool
  throttle_mode :: bool
  throttle_trigger_pct :: real
  throttle_scaling :: real
  locked_due_to_freq :: bool
  trade_timestamps :: "int list"

text \<open>\<open>_define_tier\<close>: the strings "low", "retail" and "pro" are the three constructors.\<close>

definition define_tier :: "real \<Rightarrow> tier" where
  "define_tier equity =
     (if equity < 2000 then Low else if equity < 25000 then Retail else Pro)"

text \<open>\<open>__init__\<close>.\<close>

definition rep_init :: "real \<Rightarrow> rep" where
  "rep_init equity =
     (let t = define_tier equity in
      \<lparr> account_equity = equity,
        tier = t,
        max_position_size_pct = (if t = Low then 0.15 else if t = Retail then 0.20 else 0.25),
        max_trades_per_hour = (if t = Low then 8 else if t = Retail then 6 else 4),
        max_daily_drawdown_pct = 0.04,
        max_trade_drawdown_pct = 0.015,
        daily_loss_total = 0,
        trade_history = [],
        last_trade_time = None,
        execution_frozen = False,
        throttle_mode = False,
        throttle_trigger_pct = 0.025,
        throttle_scaling = 0.5,
        locked_due_to_freq = False,
        trade_timestamps = [] \<rparr>)"

definition risk_scaling_from_confidence :: "string \<Rightarrow> real" where
  "risk_scaling_from_confidence classification =
     (let tag = lower classification in
      if str_in ''a_'' tag \<or> str_in ''high'' tag then 1.0
      else if str_in ''b_'' tag \<or> str_in ''med'' tag then 0.65
      else if str_in ''c_'' tag \<or> str_in ''low'' tag then 0.4
      else 0.25)"

text \<open>
  The messages of \<open>validate_trade_request\<close>: "Execution frozen. Trade denied.",
  "Position exceeds scaled limit for class '...'." (with the classification) and
  "Trade permitted.".
\<close>

datatype validate_msg =
    Msg_frozen_denied
  | Msg_exceeds_scaled_limit string
  | Msg_permitted

definition validate_trade_request :: "rep \<Rightarrow> string \<Rightarrow> real \<Rightarrow> bool \<times> validate_msg" where
  "validate_trade_request s classification position_size_pct =
     (if execution_frozen s then (False, Msg_frozen_denied)
      else
        let scale_factor = risk_scaling_from_confidence classification;
            scaled_limit = max_position_size_pct s * scale_factor
        in if position_size_pct > scaled_limit
           then (False, Msg_exceeds_scaled_limit classification)
           else (True, Msg_permitted))"

text \<open>
  The messages of \<open>record_trade\<close>, in the order of its return statements:
  "Execution frozen. No further primary entries allowed.",
  "Entry frequency exceeded. New primary entries blocked.",
  "Trade size too large (..) for confidence class '..'. Execution frozen.",
  "Trade loss exceeded limit (..). Execution frozen.",
  "Daily loss limit exceeded (..). Execution frozen." and "Trade recorded.".
  The formatted numbers are kept as arguments.
\<close>

datatype record_msg =
    Msg_frozen_no_primary
  | Msg_frequency_exceeded
  | Msg_size_too_large real string
  | Msg_trade_loss_exceeded real
  | Msg_daily_loss_exceeded real
  | Msg_recorded

text \<open>
  The block of \<open>record_trade\<close> under \<open>trade_type == "entry" and operation_type ==
  "primary"\<close>: \<open>Inl\<close> is one of its two early returns, \<open>Inr\<close> the state that goes on.
\<close>

definition primary_entry_checks ::
  "int \<Rightarrow> rep \<Rightarrow> real \<Rightarrow> string \<Rightarrow> (record_msg \<times> rep) + rep" where
  "primary_entry_checks now s position_size_pct classification =
     (let s1 = s\<lparr>trade_timestamps :=
                   filter (\<lambda>t. td_seconds (now - t) < 3600) (trade_timestamps s @ [now])\<rparr>
      in if length (trade_timestamps s1) > max_trades_per_hour s1
         then Inl (Msg_frequency_exceeded,
                   s1\<lparr>execution_frozen := True, locked_due_to_freq := True\<rparr>)
         else
           let scale_factor = risk_scaling_from_confidence classification;
               scaled_limit = max_position_size_pct s1 * scale_factor
           in if position_size_pct > scaled_limit
              then Inl (Msg_size_too_large position_size_pct classification,
                        s1\<lparr>execution_frozen := True\<rparr>)
              else Inr s1)"

text \<open>The rest of \<open>record_trade\<close>, from \<open>self.trade_history.append(pnl_pct)\<close> on.\<close>

definition book_trade :: "int \<Rightarrow> rep \<Rightarrow> real \<Rightarrow> record_msg \<times> rep" where
  "book_trade now s pnl_pct =
     (let s2 = s\<lparr>trade_history := trade_history s @ [pnl_pct],
                 daily_loss_total := daily_loss_total s + (if pnl_pct < 0 then pnl_pct else 0),
                 last_trade_time := Some now\<rparr>
      in if pnl_pct < - max_trade_drawdown_pct s2
         then (Msg_trade_loss_exceeded pnl_pct, s2\<lparr>execution_frozen := True\<rparr>)
         else if \<bar>daily_loss_total s2\<bar> > max_daily_drawdown_pct s2
         then (Msg_daily_loss_exceeded (daily_loss_total s2), s2\<lparr>execution_frozen := True\<rparr>)
         else if \<bar>daily_loss_total s2\<bar> > throttle_trigger_pct s2
         then (Msg_recorded, s2\<lparr>throttle_mode := True\<rparr>)
         else (Msg_recorded, s2))"

text \<open>\<open>record_trade\<close>; \<open>now\<close> is the value of \<open>datetime.datetime.utcnow()\<close>.\<close>

definition record_trade ::
  "int \<Rightarrow> rep \<Rightarrow> real \<Rightarrow> real \<Rightarrow> string \<Rightarrow> string \<Rightarrow> string \<Rightarrow> record_msg \<times> rep" where
  "record_trade now s pnl_pct position_size_pct trade_type operation_type classification =
     (if execution_frozen s \<and> trade_type = ''entry'' \<and> operation_type = ''primary''
      then (Msg_frozen_no_primary, s)
      else if trade_type = ''entry'' \<and> operation_type = ''primary''
      then (case primary_entry_checks now s position_size_pct classification of
              Inl r \<Rightarrow> r
            | Inr s1 \<Rightarrow> book_trade now s1 pnl_pct)
      else book_trade now s pnl_pct)"

definition should_throttle :: "rep \<Rightarrow> bool" where
  "should_throttle s = (throttle_mode s \<and> \<not> execution_frozen s)"

text \<open>\<open>reset_daily_risk\<close>; its message is "Risk counters reset. Execution re-enabled.".\<close>

definition reset_daily_risk :: "rep \<Rightarrow> rep" where
  "reset_daily_risk s =
     s\<lparr>daily_loss_total := 0,
       trade_history := [],
       trade_timestamps := [],
       execution_frozen := False,
       throttle_mode := False,
       locked_due_to_freq := False\<rparr>"

text \<open>
  A sequence of calls on one protocol object, reset apart. Results are discarded:
  only the object's state is followed.
\<close>

datatype rep_call =
    Record_trade int real real string string string
  | Validate_trade_request string real
  | Should_throttle

fun rep_step :: "rep \<Rightarrow> rep_call \<Rightarrow> rep" where
  "rep_step s (Record_trade now pnl sz tt ot cls) = snd (record_trade now s pnl sz tt ot cls)"
| "rep_step s (Validate_trade_request cls sz) = s"
| "rep_step s Should_throttle = s"

fun rep_run :: "rep \<Rightarrow> rep_call list \<Rightarrow> rep" where
  "rep_run s [] = s"
| "rep_run s (c # cs) = rep_run (rep_step s c) cs"

text \<open>The limits as \<open>__init__\<close> sets them; no method assigns to these fields.\<close>

definition rep_limits :: "rep \<Rightarrow> bool" where
  "rep_limits s =
     (max_daily_drawdown_pct s = 0.04 \<and> max_trade_drawdown_pct s = 0.015
      \<and> throttle_trigger_pct s = 0.025)"

text \<open>
  Two states used as concrete inputs. In the first, three exits losing 1% each have
  crossed the throttle trigger and a fourth losing 2% has then frozen execution; the
  second is the state after the first two of these exits.
\<close>

definition rep_throttled_then_frozen :: rep where
  "rep_throttled_then_frozen =
     rep_run (rep_init 10000)
       [Record_trade 0 (-0.01) 0.1 ''exit'' ''primary'' [],
        Record_trade 1000000 (-0.01) 0.1 ''exit'' ''primary'' [],
        Record_trade 2000000 (-0.01) 0.1 ''exit'' ''primary'' [],
        Record_trade 3000000 (-0.02) 0.1 ''exit'' ''primary'' []]"

definition rep_two_losses :: rep where
  "rep_two_losses =
     rep_run (rep_init 10000)
       [Record_trade 0 (-0.01) 0.1 ''exit'' ''primary'' [],
        Record_trade 1000000 (-0.01) 0.1 ''exit'' ''primary'' []]"

section \<open>signal_isolation_system.py\<close>

text \<open>
  A signal packet is a Python value: either something that is not a dictionary or a
  dictionary from string keys to values. The values that occur are strings, booleans,
  integers, floats and the dictionary of boolean domain flags under "inputs".
\<close>

datatype pyval =
    PStr string
  | PBool bool
  | PInt int
  | PFloat real
  | PDict "(string \<times> bool) list"

datatype packet = Not_dict | Dict "(string \<times> pyval) list"

text \<open>\<open>packet[key]\<close>.\<close>

definition getitem :: "packet \<Rightarrow> string \<Rightarrow> py_error + pyval" where
  "getitem pkt key =
     (case pkt of
        Not_dict \<Rightarrow> Inl TypeError
      | Dict kvs \<Rightarrow> (case map_of kvs key of None \<Rightarrow> Inl (KeyError key) | Some v \<Rightarrow> Inr v))"

record override_entry =
  ov_signal_id :: pyval
  ov_timestamp :: pyval
  ov_user :: string
  ov_justification :: string

text \<open>An entry of the execution log; \<open>meta\<close> is flattened into its two counts.\<close>

record execution_entry =
  signal_id_hash :: string
  ex_timestamp :: pyval
  approved :: bool
  overridden :: bool
  input_count :: nat
  agree_count :: nat

record sis =
  multi_factor_threshold :: nat
  override_enabled :: bool
  override_log :: "override_entry list"
  execution_log :: "execution_entry list"

definition sis_init :: sis where
  "sis_init =
     \<lparr> multi_factor_threshold = 3, override_enabled = True,
       override_log = [], execution_log = [] \<rparr>"

definition agreement_count :: "(string \<times> bool) list \<Rightarrow> nat" where
  "agreement_count inputs = length (filter (\<lambda>val. val) (map snd inputs))"

definition multi_factor_confirm :: "sis \<Rightarrow> (string \<times> bool) list \<Rightarrow> bool" where
  "multi_factor_confirm s inputs = (agreement_count inputs \<ge> multi_factor_threshold s)"

text \<open>
  \<open>log_execution\<close>. \<open>sha256\<close> stands for
  \<open>hashlib.sha256(x.encode()).hexdigest()\<close>. The entry is built before it is appended, so
  a missing key or a value of the wrong type raises with the log unchanged.
\<close>

definition log_execution ::
  "(string \<Rightarrow> string) \<Rightarrow> sis \<Rightarrow> packet \<Rightarrow> bool \<Rightarrow> bool \<Rightarrow> py_error + sis" where
  "log_execution sha256 s pkt appr ovr =
     (case getitem pkt ''id'' of
        Inl e \<Rightarrow> Inl e
      | Inr (PStr ident) \<Rightarrow>
          (case getitem pkt ''timestamp'' of
             Inl e \<Rightarrow> Inl e
           | Inr ts \<Rightarrow>
               (case getitem pkt ''inputs'' of
                  Inl e \<Rightarrow> Inl e
                | Inr (PDict inputs) \<Rightarrow>
                    Inr (s\<lparr>execution_log := execution_log s @
                          [\<lparr> signal_id_hash = sha256 ident, ex_timestamp = ts,
                             approved = appr, overridden = ovr,
                             input_count = length inputs,
                             agree_count = agreement_count inputs \<rparr>]\<rparr>)
                | Inr (PStr v) \<Rightarrow> Inl AttributeError
                | Inr _ \<Rightarrow> Inl TypeError))
      | Inr _ \<Rightarrow> Inl AttributeError)"

text \<open>\<open>allow_trade\<close>: the result or the exception, and the object after the call.\<close>

definition allow_trade ::
  "(string \<Rightarrow> string) \<Rightarrow> sis \<Rightarrow> packet \<Rightarrow> (py_error + bool) \<times> sis" where
  "allow_trade sha256 s pkt =
     (case getitem pkt ''inputs'' of
        Inl e \<Rightarrow> (Inl e, s)
      | Inr (PDict inputs) \<Rightarrow>
          (let appr = multi_factor_confirm s inputs in
           case log_execution sha256 s pkt appr False of
             Inl e \<Rightarrow> (Inl e, s)
           | Inr s' \<Rightarrow> (Inr appr, s'))
      | Inr _ \<Rightarrow> (Inl AttributeError, s))"

text \<open>
  \<open>trigger_override\<close>. The override log is appended to before \<open>log_execution\<close> runs,
  so an exception there leaves the override entry in place.
\<close>

definition trigger_override ::
  "(string \<Rightarrow> string) \<Rightarrow> sis \<Rightarrow> packet \<Rightarrow> string \<Rightarrow> string \<Rightarrow> (py_error + bool) \<times> sis" where
  "trigger_override sha256 s pkt user_id justification =
     (if \<not> override_enabled s then (Inr False, s)
      else
        case getitem pkt ''id'' of
          Inl e \<Rightarrow> (Inl e, s)
        | Inr ident \<Rightarrow>
            (case getitem pkt ''timestamp'' of
               Inl e \<Rightarrow> (Inl e, s)
             | Inr ts \<Rightarrow>
                 (let s1 = s\<lparr>override_log := override_log s @
                             [\<lparr> ov_signal_id = ident, ov_timestamp = ts,
                                ov_user = user_id, ov_justification = justification \<rparr>]\<rparr>
                  in case log_execution sha256 s1 pkt True True of
                       Inl e \<Rightarrow> (Inl e, s1)
                     | Inr s2 \<Rightarrow> (Inr True, s2))))"

text \<open>\<open>lockdown\<close>; its message is "Override system disabled. All discretionary approvals
  blocked.".\<close>

definition lockdown :: "sis \<Rightarrow> sis" where
  "lockdown s = s\<lparr>override_enabled := False\<rparr>"

text \<open>A packet with three agreeing domains, used as a concrete input.\<close>

definition example_packet :: "string \<Rightarrow> packet" where
  "example_packet ts =
     Dict [(''id'', PStr ''sig-1''), (''timestamp'', PStr ts),
           (''inputs'', PDict [(''technical'', True), (''order_flow'', True),
                               (''volatility'', True), (''behavioral'', False)])]"

section \<open>trade_coordinator.py\<close>

text \<open>
  The fields of a \<open>RateLimiter\<close>; the \<open>deque\<close> of submission times is a list with its
  left end first, \<open>time.time()\<close> a real number of seconds.
\<close>

record ratelimiter =
  timestamps :: "real list"
  max_packets_per_sec :: nat
  burst_limit :: nat

record sanitizer =
  max_length :: nat

text \<open>\<open>PacketSanitizer.__init__\<close> with its default.\<close>

definition sanitizer_init :: sanitizer where
  "sanitizer_init = \<lparr> max_length = 4096 \<rparr>"

text \<open>
  \<open>validate_timestamp\<close>. \<open>strptime\<close> stands for \<open>datetime.strptime\<close> with the format
  \<open>%Y-%m-%dT%H:%M:%SZ\<close>: \<open>None\<close> is its \<open>ValueError\<close>, \<open>Some t\<close> the parsed time in
  microseconds. \<open>now\<close> is \<open>datetime.utcnow()\<close>; five minutes are 300000000 microseconds.
  The statement after the last \<open>raise\<close> is never reached.
\<close>

definition validate_timestamp ::
  "(string \<Rightarrow> int option) \<Rightarrow> int \<Rightarrow> string \<Rightarrow> py_error + bool" where
  "validate_timestamp strptime now timestamp_str =
     (case strptime timestamp_str of
        None \<Rightarrow>
          Inl (ValueError
            ''Invalid timestamp format. Expected ISO format (e.g., 2025-04-09T14:33:00Z)'')
      | Some packet_time \<Rightarrow>
          if packet_time > now then Inl (ValueError ''Timestamp is in the future'')
          else if now - packet_time > 300000000
          then Inl (ValueError ''Timestamp is older than 5 minutes'')
          else Inr True)"

text \<open>
  \<open>len(str(v))\<close>. Of an integer it is the number of decimal digits and the sign; of a
  float it is left to the parameter \<open>float_len\<close>; of a dictionary it is the length of
  its \<open>repr\<close>, braces, quoted keys, colons and commas included. In the \<open>repr\<close> of a
  key, whose characters are the code points up to 255, a backslash, a tab, a line feed,
  a carriage return and a quote that needs escaping take two characters, and the code
  points that are not printable (below 32, from 127 to 160, and 173) take four.
\<close>

fun digits_len :: "nat \<Rightarrow> nat" where
  "digits_len n = (if n < 10 then 1 else Suc (digits_len (n div 10)))"

definition repr_char_len :: "bool \<Rightarrow> char \<Rightarrow> nat" where
  "repr_char_len single_quoted c =
     (let n = (of_char c :: nat) in
      if n = 92 \<or> n = 9 \<or> n = 10 \<or> n = 13 then 2
      else if n = 39 \<and> single_quoted then 2
      else if n < 32 \<or> (127 \<le> n \<and> n \<le> 160) \<or> n = 173 then 4
      else 1)"

definition repr_str_len :: "string \<Rightarrow> nat" where
  "repr_str_len s =
     (let single_quoted = \<not> (CHR 0x27 \<in> set s \<and> CHR 0x22 \<notin> set s)
      in 2 + sum_list (map (repr_char_len single_quoted) s))"

definition bool_str_len :: "bool \<Rightarrow> nat" where
  "bool_str_len b = (if b then 4 else 5)"

definition dict_repr_len :: "(string \<times> bool) list \<Rightarrow> nat" where
  "dict_repr_len kvs =
     2 + sum_list (map (\<lambda>(k, v). repr_str_len k + 2 + bool_str_len v) kvs)
       + 2 * (length kvs - 1)"

fun str_len :: "(real \<Rightarrow> nat) \<Rightarrow> pyval \<Rightarrow> nat" where
  "str_len float_len (PStr s) = length s"
| "str_len float_len (PBool b) = bool_str_len b"
| "str_len float_len (PInt i) = (if i < 0 then 1 else 0) + digits_len (nat \<bar>i\<bar>)"
| "str_len float_len (PFloat x) = float_len x"
| "str_len float_len (PDict kvs) = dict_repr_len kvs"

text \<open>\<open>sanitize\<close>. It does not call \<open>validate_timestamp\<close>.\<close>

definition sanitize :: "(real \<Rightarrow> nat) \<Rightarrow> sanitizer \<Rightarrow> packet \<Rightarrow> py_error + bool" where
  "sanitize float_len sn pkt =
     (case pkt of
        Not_dict \<Rightarrow> Inl (ValueError ''Malformed packet: not a dictionary'')
      | Dict kvs \<Rightarrow>
          if list_ex (\<lambda>v. str_len float_len v > max_length sn) (map snd kvs)
          then Inl (ValueError ''Suspiciously large field in packet'')
          else Inr True)"

record split_entry =
  sp_symbol :: string
  sp_date :: string
  sp_factor :: real

record spinoff_entry =
  so_parent :: string
  so_child :: string
  so_date :: string

datatype reason =
    Reason_empty
  | Reason_sis_rejected
  | Reason_rep validate_msg

text \<open>The decision dictionary that \<open>process_signal\<close> builds, by its keys.\<close>

record decision =
  signal_id :: pyval
  timestamp :: pyval
  inputs :: pyval
  confidence_tag :: pyval
  risk_pct :: pyval
  suitable :: bool
  permitted :: bool
  tax_notes :: "string list"
  margin_risk :: string
  split_adjusted :: pyval
  spinoff_event :: pyval
  final_decision :: string
  reason :: reason

text \<open>
  The fields that \<open>TradeCoordinator.__init__\<close> assigns. No constructor is modelled:
  \<open>RateLimiter.__init__\<close> calls \<open>deque\<close>, whose import is commented out, so building a
  coordinator raises \<open>NameError\<close> as the file stands. The registries below are modelled on
  any coordinator object. \<open>process_signal\<close> is not modelled either: the statements under
  its \<open>if not allowed_by_sis\<close> are indented so that the file does not parse, and the
  two ways of mending them give different programs.
\<close>

record coordinator =
  sis :: sis
  rep :: rep
  decision_log :: "decision list"
  symbol_registry :: "(string \<times> string) list"
  split_log :: "split_entry list"
  spinoff_log :: "spinoff_entry list"
  ratelimiter :: ratelimiter
  sanitizer :: sanitizer
  anomaly_cooldown :: real
  last_safe_trade_time :: real

definition register_symbol_change :: "coordinator \<Rightarrow> string \<Rightarrow> string \<Rightarrow> coordinator" where
  "register_symbol_change c old_symbol new_symbol =
     c\<lparr>symbol_registry := AList.update old_symbol new_symbol (symbol_registry c)\<rparr>"

definition register_split :: "coordinator \<Rightarrow> string \<Rightarrow> string \<Rightarrow> real \<Rightarrow> coordinator" where
  "register_split c symbol date_str factor =
     c\<lparr>split_log := split_log c @
          [\<lparr> sp_symbol = symbol, sp_date = date_str, sp_factor = factor \<rparr>]\<rparr>"

text \<open>The loop of \<open>get_split_factor\<close>: the first entry of the log that matches decides.
  Python compares the date strings character by character, as the order on lists does.\<close>

fun first_split_factor :: "split_entry list \<Rightarrow> string \<Rightarrow> string \<Rightarrow> real" where
  "first_split_factor [] symbol date_str = 1.0"
| "first_split_factor (entry # es) symbol date_str =
     (if sp_symbol entry = symbol \<and> sp_date entry \<le> date_str then sp_factor entry
      else first_split_factor es symbol date_str)"

definition get_split_factor :: "coordinator \<Rightarrow> string \<Rightarrow> string \<Rightarrow> real" where
  "get_split_factor c symbol date_str = first_split_factor (split_log c) symbol date_str"

text \<open>
  The lookup as the specification words it, for comparison with \<open>get_split_factor\<close>:
  among the registered splits of the symbol dated at or before the given date, the
  factor of the one with the latest date, and 1.0 when there is none.
\<close>

definition latest_split_factor :: "split_entry list \<Rightarrow> string \<Rightarrow> string \<Rightarrow> real" where
  "latest_split_factor entries symbol date_str =
     (case filter (\<lambda>e. sp_symbol e = symbol \<and> sp_date e \<le> date_str) entries of
        [] \<Rightarrow> 1.0
      | e # es \<Rightarrow> sp_factor (fold (\<lambda>x best. if sp_date best < sp_date x then x else best) es e))"

section \<open>vix_whipsaw_filter.py\<close>

text \<open>
  The state dictionary: a key that is absent (or popped) is \<open>None\<close>. Dates are in
  microseconds, so a day is 86400000000 and an hour 3600000000.
\<close>

record regime_state =
  cooldown_until :: "int option"
  observation_day :: "int option"
  last_trigger_day :: "int option"
  red_light_until :: "int option"
  red_count :: "int option"
  observe_red_on :: "int option"
  red_watch :: "bool option"
  volatility_floor :: "real option"

definition empty_state :: regime_state where
  "empty_state =
     \<lparr> cooldown_until = None, observation_day = None, last_trigger_day = None,
       red_light_until = None, red_count = None, observe_red_on = None,
       red_watch = None, volatility_floor = None \<rparr>"

datatype regime =
    Normal
  | Cooling_triggered
  | Cooldown_active
  | Red_watch_triggered
  | Red_light_active
  | Revert_to_strict

definition days :: "int \<Rightarrow> int" where
  "days n = n * 86400000000"

definition hours :: "int \<Rightarrow> int" where
  "hours n = n * 3600000000"

text \<open>
  The series of daily closes is the list of its (date, value) rows in index order; the
  index is taken to be strictly increasing, as a daily series has it, so each date has
  one row. \<open>vix_data.loc[d]\<close> is \<open>map_of\<close>, \<open>index.get_loc(d)\<close> the position of the
  row, and the value of the row before it is \<open>vix_data.loc[prev_date]\<close>.
\<close>

type_synonym series = "(int \<times> real) list"

fun get_loc :: "series \<Rightarrow> int \<Rightarrow> nat option" where
  "get_loc [] d = None"
| "get_loc ((d', v) # rows) d =
     (if d' = d then Some 0 else map_option Suc (get_loc rows d))"

text \<open>The slice \<open>vix_data[lo:hi]\<close> by labels, both ends included.\<close>

definition window :: "series \<Rightarrow> int \<Rightarrow> int \<Rightarrow> series" where
  "window vix_data lo hi = filter (\<lambda>(d, v). lo \<le> d \<and> d \<le> hi) vix_data"

fun min_list_real :: "real \<Rightarrow> real list \<Rightarrow> real" where
  "min_list_real m [] = m"
| "min_list_real m (x # xs) = min_list_real (if x < m then x else m) xs"

text \<open>
  The quotient of two floats of the series. Dividing by zero raises nothing there: the
  result is an infinity or not-a-number, and only a finite quotient or the positive
  infinity can exceed or reach a positive bound.
\<close>

datatype quotient = Finite real | Pos_inf | Neg_inf | Not_a_number

definition fdiv :: "real \<Rightarrow> real \<Rightarrow> quotient" where
  "fdiv a b =
     (if b \<noteq> 0 then Finite (a / b)
      else if a > 0 then Pos_inf else if a < 0 then Neg_inf else Not_a_number)"

fun exceeds :: "quotient \<Rightarrow> real \<Rightarrow> bool" where
  "exceeds (Finite q) bound = (q > bound)"
| "exceeds Pos_inf bound = True"
| "exceeds Neg_inf bound = False"
| "exceeds Not_a_number bound = False"

fun reaches :: "quotient \<Rightarrow> real \<Rightarrow> bool" where
  "reaches (Finite q) bound = (q \<ge> bound)"
| "reaches Pos_inf bound = True"
| "reaches Neg_inf bound = False"
| "reaches Not_a_number bound = False"

text \<open>The red-light block: the date is in the index and \<open>red_light_until\<close> has not
  passed.\<close>

definition red_light_block :: "int \<Rightarrow> series \<Rightarrow> regime_state \<Rightarrow> real \<Rightarrow> regime \<times> regime_state" where
  "red_light_block current_date vix_data state current_vix =
     (let recent_window = map snd (window vix_data (current_date - days 21) current_date);
          three_week_low = (case recent_window of [] \<Rightarrow> current_vix
                            | x # xs \<Rightarrow> min_list_real x xs);
          floor_now = (if 38 < three_week_low then 38 else three_week_low)
      in if current_vix < floor_now
         then (Normal, state\<lparr>red_light_until := None, volatility_floor := None\<rparr>)
         else (Red_light_active, state\<lparr>volatility_floor := Some floor_now\<rparr>))"

text \<open>The triggers and observations, once today's and yesterday's values are known.\<close>

definition compare_days ::
  "int \<Rightarrow> regime_state \<Rightarrow> real \<Rightarrow> real \<Rightarrow> regime \<times> regime_state" where
  "compare_days current_date state prev_vix today_vix =
     (let drop_pct = fdiv (prev_vix - today_vix) prev_vix in
      if prev_vix > 30 \<and> exceeds drop_pct 0.08
      then (Cooling_triggered,
            state\<lparr>observation_day := Some (current_date + days 1),
                  last_trigger_day := Some current_date\<rparr>)
      else if exceeds drop_pct 0.07
      then (Red_watch_triggered,
            state\<lparr>observe_red_on := Some (current_date + days 1), red_watch := Some True\<rparr>)
      else if observation_day state = Some current_date
      then (if reaches (fdiv (today_vix - prev_vix) prev_vix) 0.045
            then (Revert_to_strict,
                  state\<lparr>cooldown_until := Some (current_date + hours 72),
                        observation_day := None\<rparr>)
            else (Normal, state\<lparr>observation_day := None\<rparr>))
      else if observe_red_on state = Some current_date \<and> red_watch state = Some True
      then (if reaches (fdiv (today_vix - prev_vix) prev_vix) 0.04
            then (let n = (case red_count state of None \<Rightarrow> 0 | Some k \<Rightarrow> k) + 1;
                      cooldown_hours = (if n = 1 then 72 else 144)
                  in (Red_light_active,
                      state\<lparr>red_count := Some n,
                            red_light_until := Some (current_date + hours cooldown_hours),
                            red_watch := Some False,
                            observe_red_on := None\<rparr>))
            else (Normal, state\<lparr>red_watch := Some False, observe_red_on := None\<rparr>))
      else (Normal, state))"

definition active :: "int option \<Rightarrow> int \<Rightarrow> bool" where
  "active until current_date = (case until of None \<Rightarrow> False | Some u \<Rightarrow> current_date \<le> u)"

definition vix_whipsaw_filter :: "int \<Rightarrow> series \<Rightarrow> regime_state \<Rightarrow> regime \<times> regime_state" where
  "vix_whipsaw_filter current_date vix_data state =
     (case map_of vix_data current_date of
        None \<Rightarrow> (Normal, state)
      | Some today_vix \<Rightarrow>
          if active (red_light_until state) current_date
          then red_light_block current_date vix_data state today_vix
          else if active (cooldown_until state) current_date
          then (Cooldown_active, state)
          else
            (case get_loc vix_data current_date of
               None \<Rightarrow> (Normal, state)
             | Some idx \<Rightarrow>
                 if idx = 0 then (Normal, state)
                 else compare_days current_date state (snd (vix_data ! (idx - 1))) today_vix))"

section \<open>enforce_allocation_rules_fullSet.py\<close>















section \<open>Properties of the risk execution protocol\<close>

lemma rep_init_limits: "rep_limits (rep_init equity)"
  by (simp add: rep_limits_def rep_init_def Let_def)

lemma book_trade_limits: "rep_limits s \<Longrightarrow> rep_limits (snd (book_trade now s pnl))"
  by (simp add: book_trade_def rep_limits_def Let_def)

lemma primary_entry_checks_limits:
  "rep_limits s \<Longrightarrow> primary_entry_checks now s sz cls = Inl (m, s') \<Longrightarrow> rep_limits s'"
  "rep_limits s \<Longrightarrow> primary_entry_checks now s sz cls = Inr s1 \<Longrightarrow> rep_limits s1"
  by (auto simp: primary_entry_checks_def rep_limits_def Let_def split: if_splits)

lemma record_trade_limits:
  "rep_limits s \<Longrightarrow> rep_limits (snd (record_trade now s pnl sz tt ot cls))"
  by (auto simp: record_trade_def book_trade_limits
           dest: primary_entry_checks_limits split: sum.splits)

lemma book_trade_keeps_frozen:
  "execution_frozen s \<Longrightarrow> execution_frozen (snd (book_trade now s pnl))"
  by (simp add: book_trade_def Let_def)

lemma primary_entry_checks_Inl_frozen:
  "primary_entry_checks now s sz cls = Inl (m, s') \<Longrightarrow> execution_frozen s'"
  by (auto simp: primary_entry_checks_def Let_def split: if_splits)

lemma primary_entry_checks_Inr_frozen:
  "primary_entry_checks now s sz cls = Inr s1 \<Longrightarrow> execution_frozen s1 = execution_frozen s"
  by (auto simp: primary_entry_checks_def Let_def split: if_splits)

lemma record_trade_keeps_frozen:
  "execution_frozen s \<Longrightarrow> execution_frozen (snd (record_trade now s pnl sz tt ot cls))"
  by (auto simp: record_trade_def book_trade_keeps_frozen)

lemma rep_step_keeps_frozen: "execution_frozen s \<Longrightarrow> execution_frozen (rep_step s c)"
  by (cases c) (simp_all add: record_trade_keeps_frozen)

lemma rep_run_keeps_frozen: "execution_frozen s \<Longrightarrow> execution_frozen (rep_run s cs)"
  by (induction cs arbitrary: s) (simp_all add: rep_step_keeps_frozen)

lemma book_trade_big_loss_freezes:
  "pnl < - max_trade_drawdown_pct s \<Longrightarrow> execution_frozen (snd (book_trade now s pnl))"
  by (simp add: book_trade_def Let_def)

lemma primary_entry_checks_Inr_drawdown:
  "primary_entry_checks now s sz cls = Inr s1 \<Longrightarrow>
     max_trade_drawdown_pct s1 = max_trade_drawdown_pct s"
  by (auto simp: primary_entry_checks_def Let_def split: if_splits)

lemma starts_with_map: "starts_with p s \<Longrightarrow> starts_with (map f p) (map f s)"
  by (induction p s rule: starts_with.induct) simp_all

lemma str_in_map: "str_in p s \<Longrightarrow> str_in (map f p) (map f s)"
proof (induction s)
  case Nil
  then show ?case by simp
next
  case (Cons c cs)
  from Cons.prems have "starts_with p (c # cs) \<or> str_in p cs" by simp
  then show ?case
  proof
    assume "starts_with p (c # cs)"
    then have "starts_with (map f p) (map f (c # cs))" by (rule starts_with_map)
    then show ?thesis by simp
  next
    assume "str_in p cs"
    then have "str_in (map f p) (map f cs)" by (rule Cons.IH)
    then show ?thesis by simp
  qed
qed

lemma lower_high: "lower ''high'' = ''high''"
  by (simp add: lower_def lower_char_def)

lemma str_in_high_lower: "str_in ''high'' c \<Longrightarrow> str_in ''high'' (lower c)"
  using str_in_map [of "''high''" c lower_char] lower_high by (simp add: lower_def)

lemma scaling_high:
  "str_in ''high'' (lower c) \<Longrightarrow> risk_scaling_from_confidence c = 1"
  by (simp add: risk_scaling_from_confidence_def Let_def)

lemma book_trade_max_position:
  "max_position_size_pct (snd (book_trade now s pnl)) = max_position_size_pct s"
  by (simp add: book_trade_def Let_def)

lemma primary_entry_checks_max_position:
  "primary_entry_checks now s sz cls = Inl (m, s') \<Longrightarrow>
     max_position_size_pct s' = max_position_size_pct s"
  "primary_entry_checks now s sz cls = Inr s1 \<Longrightarrow>
     max_position_size_pct s1 = max_position_size_pct s"
  by (auto simp: primary_entry_checks_def Let_def split: if_splits)

lemma record_trade_max_position:
  "max_position_size_pct (snd (record_trade now s pnl sz tt ot cls)) = max_position_size_pct s"
  by (auto simp: record_trade_def book_trade_max_position
           dest: primary_entry_checks_max_position split: sum.splits)

lemma rep_step_max_position: "max_position_size_pct (rep_step s c) = max_position_size_pct s"
  by (cases c) (simp_all add: record_trade_max_position)

lemma rep_run_max_position: "max_position_size_pct (rep_run s cs) = max_position_size_pct s"
  by (induction cs arbitrary: s) (simp_all add: rep_step_max_position)

lemma rep_init_10000:
  "tier (rep_init 10000) = Retail" "max_position_size_pct (rep_init 10000) = 0.20"
  "\<not> execution_frozen (rep_init 10000)"
  by (simp_all add: rep_init_def define_tier_def Let_def)

lemmas rep_eval =
  rep_init_def define_tier_def record_trade_def primary_entry_checks_def book_trade_def
  td_seconds_def risk_scaling_from_confidence_def lower_def lower_char_def Let_def

lemma rep_throttled_then_frozen_fields:
  "execution_frozen rep_throttled_then_frozen"
  "throttle_mode rep_throttled_then_frozen"
  "trade_history rep_throttled_then_frozen = [-0.01, -0.01, -0.01, -0.02]"
  by (simp_all add: rep_throttled_then_frozen_def rep_eval)

lemma rep_two_losses_fields:
  "\<not> execution_frozen rep_two_losses"
  "\<not> throttle_mode rep_two_losses"
  "daily_loss_total rep_two_losses = -0.02"
  "rep_limits rep_two_losses"
  by (simp_all add: rep_two_losses_def rep_limits_def rep_eval)

text \<open>
  C2. Once \<open>execution_frozen\<close> is true, \<open>record_trade\<close> with trade type "entry" and
  operation type "primary" returns the frozen rejection and the object is left as it
  was: trade history, trade timestamps, daily loss total and every other field.
\<close>

theorem C2_frozen_primary_entry_rejected:
  "execution_frozen s \<Longrightarrow>
     record_trade now s pnl sz ''entry'' ''primary'' cls = (Msg_frozen_no_primary, s)"
  by (simp add: record_trade_def)

theorem C2_frozen_primary_entry_rejected_witness:
  "execution_frozen rep_throttled_then_frozen
   \<and> record_trade 4000000 rep_throttled_then_frozen (-0.01) 0.1 ''entry'' ''primary'' ''high''
       = (Msg_frozen_no_primary, rep_throttled_then_frozen)
   \<and> trade_history rep_throttled_then_frozen = [-0.01, -0.01, -0.01, -0.02]"
  using C2_frozen_primary_entry_rejected [OF rep_throttled_then_frozen_fields(1)]
    rep_throttled_then_frozen_fields
  by simp

lemma book_trade_outcome:
  "book_trade now s pnl = (m, s') \<Longrightarrow>
     throttle_mode s' =
       (throttle_mode s \<or> (m = Msg_recorded \<and> \<bar>daily_loss_total s'\<bar> > throttle_trigger_pct s'))
     \<and> (m = Msg_recorded) =
         (\<not> pnl < - max_trade_drawdown_pct s'
          \<and> \<not> \<bar>daily_loss_total s'\<bar> > max_daily_drawdown_pct s')
     \<and> (m = Msg_recorded \<longrightarrow> execution_frozen s' = execution_frozen s)
     \<and> (m \<noteq> Msg_recorded \<longrightarrow> execution_frozen s')"
  by (auto simp: book_trade_def Let_def split: if_splits)

lemma primary_entry_checks_outcome:
  "primary_entry_checks now s sz cls = Inl (m, s') \<Longrightarrow>
     m \<noteq> Msg_recorded \<and> throttle_mode s' = throttle_mode s \<and> execution_frozen s'"
  "primary_entry_checks now s sz cls = Inr s1 \<Longrightarrow>
     throttle_mode s1 = throttle_mode s \<and> execution_frozen s1 = execution_frozen s"
  by (auto simp: primary_entry_checks_def Let_def split: if_splits)

text \<open>
  C4, as the code has it. After a call of \<open>record_trade\<close>, \<open>throttle_mode\<close> is true
  exactly when it was true before or the call returned "Trade recorded." with the
  absolute daily loss above the throttle trigger; so a call that records the trade sets
  the flag once the trigger is crossed, and no call clears it. A call in which the
  trade's loss is over the per-trade limit or after which the daily loss is over the
  daily limit, and any call that turns \<open>execution_frozen\<close> from false to true, does not
  return "Trade recorded." and leaves \<open>throttle_mode\<close> as it was: the freeze returns
  before the throttle check.
\<close>

theorem C4_throttle_set_when_recorded:
  "record_trade now s pnl sz tt ot cls = (m, s') \<Longrightarrow>
     throttle_mode s' =
       (throttle_mode s \<or> (m = Msg_recorded \<and> \<bar>daily_loss_total s'\<bar> > throttle_trigger_pct s'))
     \<and> (pnl < - max_trade_drawdown_pct s' \<or> \<bar>daily_loss_total s'\<bar> > max_daily_drawdown_pct s'
          \<or> (execution_frozen s' \<and> \<not> execution_frozen s)
        \<longrightarrow> m \<noteq> Msg_recorded \<and> throttle_mode s' = throttle_mode s)"
proof (cases "execution_frozen s \<and> tt = ''entry'' \<and> ot = ''primary''")
  case True
  assume "record_trade now s pnl sz tt ot cls = (m, s')"
  with True show ?thesis by (auto simp: record_trade_def)
next
  case not_rejected: False
  assume rt: "record_trade now s pnl sz tt ot cls = (m, s')"
  show ?thesis
  proof (cases "tt = ''entry'' \<and> ot = ''primary''")
    case False
    with not_rejected rt have "book_trade now s pnl = (m, s')"
      by (auto simp: record_trade_def)
    from book_trade_outcome [OF this] show ?thesis by auto
  next
    case True
    show ?thesis
    proof (cases "primary_entry_checks now s sz cls")
      case (Inl r)
      with True not_rejected rt have "primary_entry_checks now s sz cls = Inl (m, s')"
        by (simp add: record_trade_def)
      from primary_entry_checks_outcome(1) [OF this] show ?thesis by simp
    next
      case (Inr s1)
      with True not_rejected rt have bt: "book_trade now s1 pnl = (m, s')"
        by (simp add: record_trade_def)
      from primary_entry_checks_outcome(2) [OF Inr] book_trade_outcome [OF bt]
      show ?thesis by auto
    qed
  qed
qed

theorem C4_throttle_set_when_recorded_witness:
  "record_trade 2000000 rep_two_losses (-0.01) 0.1 ''exit'' ''primary'' []
     = (Msg_recorded, snd (record_trade 2000000 rep_two_losses (-0.01) 0.1 ''exit'' ''primary'' []))
   \<and> \<bar>daily_loss_total (snd (record_trade 2000000 rep_two_losses (-0.01) 0.1 ''exit'' ''primary'' []))\<bar>
       > throttle_trigger_pct (snd (record_trade 2000000 rep_two_losses (-0.01) 0.1 ''exit'' ''primary'' []))
   \<and> \<not> throttle_mode rep_two_losses
   \<and> throttle_mode (snd (record_trade 2000000 rep_two_losses (-0.01) 0.1 ''exit'' ''primary'' []))
   \<and> \<not> execution_frozen rep_two_losses
   \<and> execution_frozen (snd (record_trade 2000000 rep_two_losses (-0.03) 0.1 ''exit'' ''primary'' []))
   \<and> fst (record_trade 2000000 rep_two_losses (-0.03) 0.1 ''exit'' ''primary'' []) \<noteq> Msg_recorded
   \<and> \<not> throttle_mode (snd (record_trade 2000000 rep_two_losses (-0.03) 0.1 ''exit'' ''primary'' []))"
proof -
  have r: "record_trade 2000000 rep_two_losses (-0.01) 0.1 ''exit'' ''primary'' []
     = (Msg_recorded, snd (record_trade 2000000 rep_two_losses (-0.01) 0.1 ''exit'' ''primary'' []))"
    using rep_two_losses_fields
    by (simp add: record_trade_def book_trade_def rep_limits_def Let_def)
  have d: "\<bar>daily_loss_total (snd (record_trade 2000000 rep_two_losses (-0.01) 0.1 ''exit'' ''primary'' []))\<bar>
       > throttle_trigger_pct (snd (record_trade 2000000 rep_two_losses (-0.01) 0.1 ''exit'' ''primary'' []))"
    using rep_two_losses_fields
    by (simp add: record_trade_def book_trade_def rep_limits_def Let_def)
  have f: "execution_frozen (snd (record_trade 2000000 rep_two_losses (-0.03) 0.1 ''exit'' ''primary'' []))"
    using rep_two_losses_fields
    by (simp add: record_trade_def book_trade_def rep_limits_def Let_def)
  from C4_throttle_set_when_recorded [OF r]
    C4_throttle_set_when_recorded [OF prod.collapse [symmetric],
      of 2000000 rep_two_losses "-0.03" "0.1" "''exit''" "''primary''" "[]"]
    r d f rep_two_losses_fields(1,2)
  show ?thesis by simp
qed

text \<open>
  The claim as stated fails on a fresh retail account whose first trade loses 3%: the
  per-trade freeze returns before the throttle check, so the daily loss is above the
  trigger, execution is frozen and \<open>throttle_mode\<close> is still false.
\<close>

theorem C4_freeze_skips_throttle_counterexample:
  "\<bar>daily_loss_total (snd (record_trade 0 (rep_init 10000) (-0.03) 0.1 ''entry'' ''primary'' ''high''))\<bar>
     > throttle_trigger_pct (snd (record_trade 0 (rep_init 10000) (-0.03) 0.1 ''entry'' ''primary'' ''high''))
   \<and> execution_frozen (snd (record_trade 0 (rep_init 10000) (-0.03) 0.1 ''entry'' ''primary'' ''high''))
   \<and> \<not> throttle_mode (snd (record_trade 0 (rep_init 10000) (-0.03) 0.1 ''entry'' ''primary'' ''high''))"
  by (simp add: rep_eval)

lemma book_trade_tier: "tier (snd (book_trade now s pnl)) = tier s"
  by (simp add: book_trade_def Let_def)

lemma primary_entry_checks_tier:
  "primary_entry_checks now s sz cls = Inl (m, s') \<Longrightarrow> tier s' = tier s"
  "primary_entry_checks now s sz cls = Inr s1 \<Longrightarrow> tier s1 = tier s"
  by (auto simp: primary_entry_checks_def Let_def split: if_splits)

lemma record_trade_tier: "tier (snd (record_trade now s pnl sz tt ot cls)) = tier s"
  by (auto simp: record_trade_def book_trade_tier
           dest: primary_entry_checks_tier split: sum.splits)

lemma rep_step_tier: "tier (rep_step s c) = tier s"
  by (cases c) (simp_all add: record_trade_tier)

lemma rep_run_tier: "tier (rep_run s cs) = tier s"
  by (induction cs arbitrary: s) (simp_all add: rep_step_tier)

lemma record_trade_big_loss_freezes:
  assumes "pnl < - max_trade_drawdown_pct s"
  shows "execution_frozen (snd (record_trade now s pnl sz tt ot cls))"
proof (cases "execution_frozen s \<and> tt = ''entry'' \<and> ot = ''primary''")
  case True
  then show ?thesis by (simp add: record_trade_def)
next
  case not_rejected: False
  show ?thesis
  proof (cases "tt = ''entry'' \<and> ot = ''primary''")
    case False
    with not_rejected have "record_trade now s pnl sz tt ot cls = book_trade now s pnl"
      by (auto simp: record_trade_def)
    with assms show ?thesis by (simp add: book_trade_big_loss_freezes)
  next
    case True
    show ?thesis
    proof (cases "primary_entry_checks now s sz cls")
      case (Inl r)
      obtain m s' where r: "r = (m, s')" by (cases r)
      with Inl have "execution_frozen s'" by (simp add: primary_entry_checks_Inl_frozen)
      with True not_rejected Inl r show ?thesis by (simp add: record_trade_def)
    next
      case (Inr s1)
      with assms have "pnl < - max_trade_drawdown_pct s1"
        by (simp add: primary_entry_checks_Inr_drawdown)
      then have "execution_frozen (snd (book_trade now s1 pnl))"
        by (rule book_trade_big_loss_freezes)
      with True not_rejected Inr show ?thesis by (simp add: record_trade_def)
    qed
  qed
qed

text \<open>
  C5. An account built with equity 10000 is in tier retail with a 20% maximum position.
  In any state of it that is not frozen, a classification that contains "high", as
  written or once lower-cased, has the scaled limit 0.20, a request of 0.25 is denied and one of 0.15 is
  permitted. In general, in a state that is not frozen, a request is permitted exactly
  when its size does not exceed the tier limit times the confidence multiplier.
\<close>

theorem C5_retail_high_limit:
  "str_in ''high'' cls \<or> str_in ''high'' (lower cls) \<Longrightarrow> s = rep_run (rep_init 10000) cs \<Longrightarrow>
   \<not> execution_frozen s \<Longrightarrow> \<not> execution_frozen s2 \<Longrightarrow>
     tier s = Retail
     \<and> max_position_size_pct s * risk_scaling_from_confidence cls = 0.20
     \<and> \<not> fst (validate_trade_request s cls 0.25)
     \<and> fst (validate_trade_request s cls 0.15)
     \<and> fst (validate_trade_request s2 c p)
         = (p \<le> max_position_size_pct s2 * risk_scaling_from_confidence c)"
proof -
  assume tag: "str_in ''high'' cls \<or> str_in ''high'' (lower cls)"
    and s: "s = rep_run (rep_init 10000) cs"
    and nf: "\<not> execution_frozen s" and nf2: "\<not> execution_frozen s2"
  have t: "tier s = Retail" by (simp add: s rep_run_tier rep_init_10000)
  have m: "max_position_size_pct s = 0.20" by (simp add: s rep_run_max_position rep_init_10000)
  from tag have "str_in ''high'' (lower cls)" by (auto dest: str_in_high_lower)
  then have sc: "risk_scaling_from_confidence cls = 1" by (rule scaling_high)
  have d: "\<not> fst (validate_trade_request s cls 0.25)"
    using nf by (simp add: validate_trade_request_def Let_def m sc)
  have a: "fst (validate_trade_request s cls 0.15)"
    using nf by (simp add: validate_trade_request_def Let_def m sc)
  have g: "fst (validate_trade_request s2 c p)
         = (p \<le> max_position_size_pct s2 * risk_scaling_from_confidence c)"
    using nf2 by (auto simp: validate_trade_request_def Let_def)
  from t m sc d a g show ?thesis by simp
qed

theorem C5_retail_high_limit_witness:
  "str_in ''high'' (lower ''HiRSI.HIGH.LowFloat'')
   \<and> \<not> execution_frozen rep_two_losses
   \<and> \<not> execution_frozen (rep_init 30000)
   \<and> validate_trade_request rep_two_losses ''HiRSI.HIGH.LowFloat'' 0.25
       = (False, Msg_exceeds_scaled_limit ''HiRSI.HIGH.LowFloat'')
   \<and> validate_trade_request rep_two_losses ''HiRSI.HIGH.LowFloat'' 0.15 = (True, Msg_permitted)
   \<and> fst (validate_trade_request (rep_init 30000) ''b_1'' 0.1625)
   \<and> \<not> fst (validate_trade_request (rep_init 30000) ''b_1'' 0.17)"
proof -
  have h: "str_in ''high'' (lower ''HiRSI.HIGH.LowFloat'')"
    by code_simp
  have nf2: "\<not> execution_frozen (rep_init 30000)"
    by (simp add: rep_init_def Let_def)
  have pro: "max_position_size_pct (rep_init 30000) * risk_scaling_from_confidence ''b_1'' = 0.1625"
    by (simp add: rep_eval)
  note w = C5_retail_high_limit [OF disjI2 [OF h] rep_two_losses_def rep_two_losses_fields(1) nf2]
  from w [of "''b_1''" "0.1625"] w [of "''b_1''" "0.17"] h nf2 pro rep_two_losses_fields(1)
  show ?thesis
    by (simp add: validate_trade_request_def Let_def)
qed

text \<open>
  C6. On an object that is not frozen and has the per-trade drawdown limit of 1.5%, one
  \<open>record_trade\<close> with a profit-and-loss of -0.02 sets \<open>execution_frozen\<close>, whatever the
  other arguments; the flag stays set through every sequence of \<open>record_trade\<close>,
  \<open>validate_trade_request\<close> and \<open>should_throttle\<close> calls, and \<open>reset_daily_risk\<close> clears it.
\<close>

theorem C6_loss_freezes_until_reset:
  "\<not> execution_frozen s \<Longrightarrow> rep_limits s \<Longrightarrow>
     execution_frozen (snd (record_trade now s (-0.02) sz tt ot cls))
     \<and> execution_frozen (rep_run (snd (record_trade now s (-0.02) sz tt ot cls)) cs)
     \<and> \<not> execution_frozen
           (reset_daily_risk (rep_run (snd (record_trade now s (-0.02) sz tt ot cls)) cs))"
proof -
  assume "rep_limits s"
  then have "(-0.02 :: real) < - max_trade_drawdown_pct s" by (simp add: rep_limits_def)
  then have f: "execution_frozen (snd (record_trade now s (-0.02) sz tt ot cls))"
    by (rule record_trade_big_loss_freezes)
  then have "execution_frozen (rep_run (snd (record_trade now s (-0.02) sz tt ot cls)) cs)"
    by (rule rep_run_keeps_frozen)
  with f show ?thesis by (simp add: reset_daily_risk_def)
qed

theorem C6_loss_freezes_until_reset_witness:
  "\<not> execution_frozen rep_two_losses \<and> rep_limits rep_two_losses
   \<and> execution_frozen (snd (record_trade 2000000 rep_two_losses (-0.02) 0.1 ''entry'' ''primary'' ''high''))
   \<and> execution_frozen
       (rep_run (snd (record_trade 2000000 rep_two_losses (-0.02) 0.1 ''entry'' ''primary'' ''high''))
          [Validate_trade_request ''high'' 0.1, Should_throttle,
           Record_trade 3000000 0.05 0.1 ''exit'' ''secondary'' []])
   \<and> \<not> execution_frozen
       (reset_daily_risk
         (rep_run (snd (record_trade 2000000 rep_two_losses (-0.02) 0.1 ''entry'' ''primary'' ''high''))
            [Validate_trade_request ''high'' 0.1, Should_throttle,
             Record_trade 3000000 0.05 0.1 ''exit'' ''secondary'' []]))"
  using C6_loss_freezes_until_reset [OF rep_two_losses_fields(1) rep_two_losses_fields(4),
      where now = 2000000 and sz = "0.1" and tt = "''entry''" and ot = "''primary''"
        and cls = "''high''"
        and cs = "[Validate_trade_request ''high'' 0.1, Should_throttle,
                   Record_trade 3000000 0.05 0.1 ''exit'' ''secondary'' []]"]
    rep_two_losses_fields
  by simp

text \<open>
  C9. \<open>should_throttle\<close> is true exactly when \<open>throttle_mode\<close> is set and
  \<open>execution_frozen\<close> is not; so while execution is frozen it is false, also when the
  throttle trigger has been crossed and \<open>throttle_mode\<close> is set.
\<close>

theorem C9_should_throttle_masked_by_freeze:
  "should_throttle s = (throttle_mode s \<and> \<not> execution_frozen s)
   \<and> (execution_frozen s \<longrightarrow> \<not> should_throttle s)"
  by (simp add: should_throttle_def)

theorem C9_should_throttle_masked_by_freeze_witness:
  "execution_frozen rep_throttled_then_frozen \<and> throttle_mode rep_throttled_then_frozen
   \<and> \<not> should_throttle rep_throttled_then_frozen"
  using C9_should_throttle_masked_by_freeze [of rep_throttled_then_frozen]
    rep_throttled_then_frozen_fields
  by simp

section \<open>Properties of the signal isolation system\<close>

text \<open>
  C10. While \<open>override_enabled\<close> is false, as it is after \<open>lockdown\<close>,
  \<open>trigger_override\<close> returns False and the object is left as it was: nothing is added
  to the override log or to the execution log, and no other field changes.
\<close>

theorem C10_refused_override_leaves_state:
  "\<not> override_enabled s \<Longrightarrow>
     trigger_override sha256 s pkt user_id justification = (Inr False, s)"
  by (simp add: trigger_override_def)

theorem C10_refused_override_leaves_state_witness:
  "\<forall>sha256.
     \<not> override_enabled (lockdown sis_init)
     \<and> trigger_override sha256 (lockdown sis_init) (example_packet ''2025-04-09T14:33:00Z'')
         ''desk-7'' ''manual check'' = (Inr False, lockdown sis_init)
     \<and> override_log (lockdown sis_init) = [] \<and> execution_log (lockdown sis_init) = []
     \<and> fst (trigger_override sha256 sis_init (example_packet ''2025-04-09T14:33:00Z'')
              ''desk-7'' ''manual check'') = Inr True"
proof
  fix sha256 :: "string \<Rightarrow> string"
  have off: "\<not> override_enabled (lockdown sis_init)"
    by (simp add: lockdown_def)
  have on: "fst (trigger_override sha256 sis_init (example_packet ''2025-04-09T14:33:00Z'')
              ''desk-7'' ''manual check'') = Inr True"
    by (simp add: trigger_override_def sis_init_def example_packet_def getitem_def
          log_execution_def Let_def)
  from C10_refused_override_leaves_state [OF off] off on
  show "\<not> override_enabled (lockdown sis_init)
     \<and> trigger_override sha256 (lockdown sis_init) (example_packet ''2025-04-09T14:33:00Z'')
         ''desk-7'' ''manual check'' = (Inr False, lockdown sis_init)
     \<and> override_log (lockdown sis_init) = [] \<and> execution_log (lockdown sis_init) = []
     \<and> fst (trigger_override sha256 sis_init (example_packet ''2025-04-09T14:33:00Z'')
              ''desk-7'' ''manual check'') = Inr True"
    by (simp add: lockdown_def sis_init_def)
qed

section \<open>Properties of the trade coordinator\<close>

text \<open>
  C8 fails on the code. \<open>get_split_factor\<close> returns the factor of the first registered
  split that matches, so its answer depends on the order of registration. On any
  coordinator whose split log is empty, with the 2014 split (factor 7) registered
  before the 2020 split (factor 4), the lookup for 2021-01-01 gives 7, where the most
  recent split at or before the date has factor 4; with the two registered in the other
  order it gives 4.
\<close>

theorem C8_first_registered_split_decides:
  "get_split_factor
     (register_split (register_split (c\<lparr>split_log := []\<rparr>)
        ''AAPL'' ''2014-06-09'' 7) ''AAPL'' ''2020-08-31'' 4)
     ''AAPL'' ''2021-01-01'' = 7
   \<and> latest_split_factor
       (split_log (register_split (register_split (c\<lparr>split_log := []\<rparr>)
          ''AAPL'' ''2014-06-09'' 7) ''AAPL'' ''2020-08-31'' 4))
       ''AAPL'' ''2021-01-01'' = 4
   \<and> get_split_factor
       (register_split (register_split (c\<lparr>split_log := []\<rparr>)
          ''AAPL'' ''2020-08-31'' 4) ''AAPL'' ''2014-06-09'' 7)
       ''AAPL'' ''2021-01-01'' = 4"
  by (simp add: get_split_factor_def latest_split_factor_def register_split_def)

lemma example_inputs_len:
  "dict_repr_len [(''technical'', True), (''order_flow'', True),
                  (''volatility'', True), (''behavioral'', False)] = 80"
  by (simp add: dict_repr_len_def repr_str_len_def repr_char_len_def bool_str_len_def Let_def)

text \<open>
  C1 fails on the code. \<open>sanitize\<close>, the packet-sanitization step of
  \<open>process_signal\<close>, checks that the packet is a dictionary and that no field is longer
  than the maximum, and never looks at the timestamp. So every dictionary packet whose
  fields are within the maximum passes it, also when its timestamp is one that
  \<open>validate_timestamp\<close> refuses: not parsable, in the future, or older than five minutes.
\<close>

theorem C1_refused_timestamp_passes_sanitize:
  "map_of kvs ''timestamp'' = Some (PStr ts) \<Longrightarrow>
   validate_timestamp strptime now_dt ts = Inl e \<Longrightarrow>
   list_all (\<lambda>v. str_len float_len v \<le> max_length sn) (map snd kvs) \<Longrightarrow>
     sanitize float_len sn (Dict kvs) = Inr True"
proof -
  assume "list_all (\<lambda>v. str_len float_len v \<le> max_length sn) (map snd kvs)"
  then have "\<not> list_ex (\<lambda>v. str_len float_len v > max_length sn) (map snd kvs)"
    by (simp add: list_all_iff list_ex_iff not_less)
  then show ?thesis by (simp add: sanitize_def)
qed

theorem C1_refused_timestamp_passes_sanitize_witness:
  "validate_timestamp (\<lambda>s. Some 946684800000000) 1762128000000000 ''2000-01-01T00:00:00Z''
     = Inl (ValueError ''Timestamp is older than 5 minutes'')
   \<and> validate_timestamp (\<lambda>s. Some 4102444800000000) 1762128000000000 ''2100-01-01T00:00:00Z''
       = Inl (ValueError ''Timestamp is in the future'')
   \<and> sanitize (\<lambda>x. 4) sanitizer_init (example_packet ''2000-01-01T00:00:00Z'') = Inr True
   \<and> sanitize (\<lambda>x. 4) sanitizer_init (example_packet ''2100-01-01T00:00:00Z'') = Inr True"
proof -
  have stale: "validate_timestamp (\<lambda>s. Some 946684800000000) 1762128000000000
                 ''2000-01-01T00:00:00Z''
               = Inl (ValueError ''Timestamp is older than 5 minutes'')"
    by (simp add: validate_timestamp_def)
  have future: "validate_timestamp (\<lambda>s. Some 4102444800000000) 1762128000000000
                  ''2100-01-01T00:00:00Z''
                = Inl (ValueError ''Timestamp is in the future'')"
    by (simp add: validate_timestamp_def)
  have a: "sanitize (\<lambda>x. 4) sanitizer_init (example_packet ''2000-01-01T00:00:00Z'') = Inr True"
    unfolding example_packet_def
    by (rule C1_refused_timestamp_passes_sanitize [OF _ stale])
       (simp_all add: sanitizer_init_def example_inputs_len)
  have b: "sanitize (\<lambda>x. 4) sanitizer_init (example_packet ''2100-01-01T00:00:00Z'') = Inr True"
    unfolding example_packet_def
    by (rule C1_refused_timestamp_passes_sanitize [OF _ future])
       (simp_all add: sanitizer_init_def example_inputs_len)
  from stale future a b show ?thesis by simp
qed

section \<open>Properties of the volatility filter\<close>

lemma filter_reaches_compare_days:
  "map_of vix_data d = Some today_vix \<Longrightarrow> get_loc vix_data d = Some idx \<Longrightarrow> idx > 0 \<Longrightarrow>
   \<not> active (red_light_until st) d \<Longrightarrow> \<not> active (cooldown_until st) d \<Longrightarrow>
     vix_whipsaw_filter d vix_data st
       = compare_days d st (snd (vix_data ! (idx - 1))) today_vix"
  by (simp add: vix_whipsaw_filter_def)

text \<open>
  C3, as the code has it. On a date of the series that has a previous day, with no
  red light and no cooldown active, a day-over-day drop of more than 7% has one of two
  outcomes. If the previous value is above 30 and the drop is more than 8%, the yellow
  trigger, which is tested first, returns \<open>cooling_triggered\<close>, sets
  \<open>observation_day\<close> to the following day and \<open>last_trigger_day\<close> to the date, and
  leaves \<open>observe_red_on\<close> and \<open>red_watch\<close> as they were. Otherwise the filter returns
  \<open>red_watch_triggered\<close> and arms the red observation for the following day
  (\<open>observe_red_on\<close> and \<open>red_watch\<close> set, nothing else changed).
\<close>

theorem C3_red_watch_after_yellow_trigger:
  "map_of vix_data d = Some today_vix \<Longrightarrow> get_loc vix_data d = Some idx \<Longrightarrow> idx > 0 \<Longrightarrow>
   prev_vix = snd (vix_data ! (idx - 1)) \<Longrightarrow>
   \<not> active (red_light_until st) d \<Longrightarrow> \<not> active (cooldown_until st) d \<Longrightarrow>
   exceeds (fdiv (prev_vix - today_vix) prev_vix) 0.07 \<Longrightarrow>
     vix_whipsaw_filter d vix_data st
       = (if prev_vix > 30 \<and> exceeds (fdiv (prev_vix - today_vix) prev_vix) 0.08
          then (Cooling_triggered,
                st\<lparr>observation_day := Some (d + days 1), last_trigger_day := Some d\<rparr>)
          else (Red_watch_triggered,
                st\<lparr>observe_red_on := Some (d + days 1), red_watch := Some True\<rparr>))"
proof -
  assume today: "map_of vix_data d = Some today_vix" and loc: "get_loc vix_data d = Some idx"
    and pos: "idx > 0" and prev: "prev_vix = snd (vix_data ! (idx - 1))"
    and red: "\<not> active (red_light_until st) d" and cool: "\<not> active (cooldown_until st) d"
    and drop: "exceeds (fdiv (prev_vix - today_vix) prev_vix) 0.07"
  have "vix_whipsaw_filter d vix_data st = compare_days d st prev_vix today_vix"
    using filter_reaches_compare_days [OF today loc pos red cool] prev by simp
  also have "\<dots> = (if prev_vix > 30 \<and> exceeds (fdiv (prev_vix - today_vix) prev_vix) 0.08
          then (Cooling_triggered,
                st\<lparr>observation_day := Some (d + days 1), last_trigger_day := Some d\<rparr>)
          else (Red_watch_triggered,
                st\<lparr>observe_red_on := Some (d + days 1), red_watch := Some True\<rparr>))"
    using drop by (simp add: compare_days_def Let_def)
  finally show ?thesis .
qed

theorem C3_red_watch_after_yellow_trigger_witness:
  "exceeds (fdiv (20 - 18) 20) 0.07
   \<and> vix_whipsaw_filter (days 1) [(days 0, 20), (days 1, 18)] empty_state
       = (Red_watch_triggered,
          empty_state\<lparr>observe_red_on := Some (days 2), red_watch := Some True\<rparr>)
   \<and> exceeds (fdiv (40 - 37) 40) 0.07
   \<and> vix_whipsaw_filter (days 1) [(days 0, 40), (days 1, 37)] empty_state
       = (Red_watch_triggered,
          empty_state\<lparr>observe_red_on := Some (days 2), red_watch := Some True\<rparr>)
   \<and> exceeds (fdiv (32 - 29) 32) 0.07
   \<and> vix_whipsaw_filter (days 1) [(days 0, 32), (days 1, 29)] empty_state
       = (Cooling_triggered,
          empty_state\<lparr>observation_day := Some (days 2), last_trigger_day := Some (days 1)\<rparr>)"
proof -
  have low: "vix_whipsaw_filter (days 1) [(days 0, 20), (days 1, 18)] empty_state
       = (if (20 :: real) > 30 \<and> exceeds (fdiv (20 - 18) 20) 0.08
          then (Cooling_triggered,
                empty_state\<lparr>observation_day := Some (days 1 + days 1),
                              last_trigger_day := Some (days 1)\<rparr>)
          else (Red_watch_triggered,
                empty_state\<lparr>observe_red_on := Some (days 1 + days 1), red_watch := Some True\<rparr>))"
    by (rule C3_red_watch_after_yellow_trigger [where idx = 1 and today_vix = 18 and prev_vix = 20])
       (simp_all add: active_def empty_state_def days_def fdiv_def)
  have high: "vix_whipsaw_filter (days 1) [(days 0, 40), (days 1, 37)] empty_state
       = (if (40 :: real) > 30 \<and> exceeds (fdiv (40 - 37) 40) 0.08
          then (Cooling_triggered,
                empty_state\<lparr>observation_day := Some (days 1 + days 1),
                              last_trigger_day := Some (days 1)\<rparr>)
          else (Red_watch_triggered,
                empty_state\<lparr>observe_red_on := Some (days 1 + days 1), red_watch := Some True\<rparr>))"
    by (rule C3_red_watch_after_yellow_trigger [where idx = 1 and today_vix = 37 and prev_vix = 40])
       (simp_all add: active_def empty_state_def days_def fdiv_def)
  have yellow: "vix_whipsaw_filter (days 1) [(days 0, 32), (days 1, 29)] empty_state
       = (if (32 :: real) > 30 \<and> exceeds (fdiv (32 - 29) 32) 0.08
          then (Cooling_triggered,
                empty_state\<lparr>observation_day := Some (days 1 + days 1),
                              last_trigger_day := Some (days 1)\<rparr>)
          else (Red_watch_triggered,
                empty_state\<lparr>observe_red_on := Some (days 1 + days 1), red_watch := Some True\<rparr>))"
    by (rule C3_red_watch_after_yellow_trigger [where idx = 1 and today_vix = 29 and prev_vix = 32])
       (simp_all add: active_def empty_state_def days_def fdiv_def)
  from low high yellow show ?thesis by (simp add: days_def fdiv_def)
qed

text \<open>
  The claim as stated fails when the previous value is above 30 and the drop is more
  than 8%: from 35 to 31 the drop is more than 7%, no red light or cooldown is active,
  and the filter returns \<open>cooling_triggered\<close> with the yellow observation armed and
  the red one not.
\<close>

theorem C3_yellow_trigger_first_counterexample:
  "exceeds (fdiv (35 - 31) 35) 0.07
   \<and> \<not> active (red_light_until empty_state) (days 1)
   \<and> \<not> active (cooldown_until empty_state) (days 1)
   \<and> fst (vix_whipsaw_filter (days 1) [(days 0, 35), (days 1, 31)] empty_state)
       = Cooling_triggered
   \<and> observe_red_on (snd (vix_whipsaw_filter (days 1) [(days 0, 35), (days 1, 31)] empty_state))
       = None
   \<and> red_watch (snd (vix_whipsaw_filter (days 1) [(days 0, 35), (days 1, 31)] empty_state))
       = None"
  by (simp add: vix_whipsaw_filter_def compare_days_def active_def empty_state_def
        days_def fdiv_def Let_def)

section \<open>Properties of the allocation rules\<close>

















end
